theory Spec2Isabelle
  imports Main "HOL-Library.Word"
begin

section \<open>The authentication module of the logistics hub front end\<close>

text \<open>
  This theory embeds \<^verbatim>\<open>src/contexts/AuthContext.tsx\<close>: the PKCE helpers, the
  \<^verbatim>\<open>AuthProvider\<close> operations (the mount effect, \<^verbatim>\<open>login\<close>,
  \<^verbatim>\<open>handleAuthCallback\<close>) and the effect of \<^verbatim>\<open>ProtectedRoute\<close>.

  Conventions of the embedding.
  \<^item> \<^verbatim>\<open>localStorage\<close> and \<^verbatim>\<open>sessionStorage\<close> are maps from keys to strings;
    \<^verbatim>\<open>getItem\<close> is application, \<^verbatim>\<open>setItem\<close> is \<open>m(k \<mapsto> v)\<close> and
    \<^verbatim>\<open>removeItem\<close> is \<open>m(k := None)\<close>. Storage operations are taken to succeed, so
    the \<^verbatim>\<open>catch\<close> branches that swallow a storage exception are never entered.
  \<^item> The React state of a component is a record; a state setter updates it at once.
  \<^item> An asynchronous function is run to completion as one step; what the browser
    supplies while it runs (the response to \<^verbatim>\<open>fetch\<close>, the clock, random values,
    the SHA-256 digest) is a parameter.
  \<^item> A JavaScript string is a \<^typ>\<open>string\<close>, its characters being bytes (so
    \<^verbatim>\<open>btoa\<close> accepts every string). A JavaScript number that the module uses as a
    count of seconds or milliseconds is an \<^typ>\<open>int\<close>. Arithmetic on such numbers
    is exact, and \<^verbatim>\<open>toString\<close> prints all the digits, as long as the operands and
    the results are safe integers (at most \<open>2 ^ 53 - 1\<close> in absolute value); what the
    floating-point arithmetic gives beyond that is a parameter.
  \<^item> Output to the console is not part of the model.
\<close>

subsection \<open>PKCE helpers\<close>

type_synonym byte = "8 word"

text \<open>\<^verbatim>\<open>String.fromCharCode(bytes[i])\<close> for a byte of a \<^verbatim>\<open>Uint8Array\<close>.\<close>

definition fromCharCode :: "byte \<Rightarrow> char" where
  "fromCharCode b = char_of (unat b)"

definition base64_alphabet :: string where
  "base64_alphabet = ''ABCDEFGHIJKLMNOPQRSTUVWXYZabcdefghijklmnopqrstuvwxyz0123456789+/''"

definition base64url_alphabet :: string where
  "base64url_alphabet = ''ABCDEFGHIJKLMNOPQRSTUVWXYZabcdefghijklmnopqrstuvwxyz0123456789-_''"

definition sextet :: "nat \<Rightarrow> char" where
  "sextet n = base64_alphabet ! (n mod 64)"

text \<open>
  The browser's \<^verbatim>\<open>btoa\<close> on a binary string (every character a byte, as a
  \<^typ>\<open>char\<close> is): groups of three characters become four sextets, and a last group
  of one or two characters is padded with \<^verbatim>\<open>=\<close>.
\<close>

fun btoa :: "string \<Rightarrow> string" where
  "btoa [] = []"
| "btoa [a] =
     (let x = (of_char a :: nat)
      in [sextet (x div 4), sextet ((x mod 4) * 16), CHR ''='', CHR ''=''])"
| "btoa [a, b] =
     (let x = (of_char a :: nat); y = (of_char b :: nat)
      in [sextet (x div 4), sextet ((x mod 4) * 16 + y div 16),
          sextet ((y mod 16) * 4), CHR ''=''])"
| "btoa (a # b # c # rest) =
     (let x = (of_char a :: nat); y = (of_char b :: nat); z = (of_char c :: nat)
      in [sextet (x div 4), sextet ((x mod 4) * 16 + y div 16),
          sextet ((y mod 16) * 4 + z div 64), sextet (z mod 64)] @ btoa rest)"

text \<open>\<^verbatim>\<open>s.replace(/c/g, d)\<close> for a one-character pattern.\<close>

definition replace_char :: "char \<Rightarrow> char \<Rightarrow> string \<Rightarrow> string" where
  "replace_char c d s = map (\<lambda>x. if x = c then d else x) s"

text \<open>\<^verbatim>\<open>s.replace(/=+$/g, '')\<close>: the run of \<^verbatim>\<open>=\<close> at the end is removed.\<close>

definition strip_padding :: "string \<Rightarrow> string" where
  "strip_padding s = rev (dropWhile (\<lambda>x. x = CHR ''='') (rev s))"

definition base64UrlEncode :: "byte list \<Rightarrow> string" where
  "base64UrlEncode bytes =
     (let binary = map fromCharCode bytes
      in strip_padding (replace_char CHR ''/'' CHR ''_'' (replace_char CHR ''+'' CHR ''-'' (btoa binary))))"

text \<open>
  \<^verbatim>\<open>generateCodeVerifier\<close>: \<^verbatim>\<open>crypto.getRandomValues\<close> overwrites each of the 32
  entries of the array; \<open>random i\<close> is the byte it puts at index \<open>i\<close>.
\<close>

definition generateCodeVerifier :: "(nat \<Rightarrow> byte) \<Rightarrow> string" where
  "generateCodeVerifier random = base64UrlEncode (map random [0..<32])"

subsection \<open>Configuration\<close>

text \<open>
  \<^verbatim>\<open>envRecord\<close>: the build-time environment values the module reads; a value may be
  undefined.
\<close>

record envRecord =
  VITE_OAUTH_AUTH_URL :: "string option"
  VITE_OAUTH_TOKEN_URL :: "string option"
  VITE_OAUTH_CLIENT_ID :: "string option"
  VITE_OAUTH_CLIENT_SECRET :: "string option"
  VITE_OAUTH_SCOPES :: "string option"
  VITE_OAUTH_REDIRECT_URI :: "string option"

record oauth_config =
  authUrl :: string
  tokenUrl :: string
  clientId :: string
  clientSecret :: string
  scopes :: string
  redirectUri :: string

text \<open>The operator \<^verbatim>\<open>v ?? ''\<close>.\<close>

definition orEmpty :: "string option \<Rightarrow> string" where
  "orEmpty v = (case v of None \<Rightarrow> [] | Some s \<Rightarrow> s)"

definition OAUTH_CONFIG :: "envRecord \<Rightarrow> oauth_config" where
  "OAUTH_CONFIG env =
     \<lparr>authUrl = orEmpty (VITE_OAUTH_AUTH_URL env),
      tokenUrl = orEmpty (VITE_OAUTH_TOKEN_URL env),
      clientId = orEmpty (VITE_OAUTH_CLIENT_ID env),
      clientSecret = orEmpty (VITE_OAUTH_CLIENT_SECRET env),
      scopes = orEmpty (VITE_OAUTH_SCOPES env),
      redirectUri = orEmpty (VITE_OAUTH_REDIRECT_URI env)\<rparr>"

subsection \<open>The page: storage, session state, network and location\<close>

type_synonym storage = "string \<rightharpoonup> string"

text \<open>
  What \<^verbatim>\<open>if (v)\<close> tests for the result of \<^verbatim>\<open>getItem\<close> or of
  \<^verbatim>\<open>URLSearchParams.get\<close>: \<^verbatim>\<open>null\<close> and the empty string are falsy.
\<close>

definition truthy :: "string option \<Rightarrow> bool" where
  "truthy v = (case v of None \<Rightarrow> False | Some s \<Rightarrow> s \<noteq> [])"

text \<open>The state of \<^verbatim>\<open>AuthProvider\<close> (its three \<^verbatim>\<open>useState\<close> cells).\<close>

record auth_state =
  isAuthenticated :: bool
  isLoading :: bool
  accessToken :: "string option"

definition initial_auth :: auth_state where
  "initial_auth = \<lparr>isAuthenticated = False, isLoading = True, accessToken = None\<rparr>"

text \<open>
  A request given to \<^verbatim>\<open>fetch\<close>. The body is the list of the parameters of the
  \<^verbatim>\<open>URLSearchParams\<close>, in order, before the percent-encoding of \<^verbatim>\<open>toString\<close>.
\<close>

record http_request =
  url :: string
  http_method :: string
  headers :: "(string \<times> string) list"
  body :: "(string \<times> string) list"

text \<open>
  \<^verbatim>\<open>TokenResponse\<close>. The refresh token may be missing from the response, which
  the code tests for.
\<close>

record TokenResponse =
  access_token :: string
  id_token :: string
  refresh_token :: "string option"
  expires_in :: int
  token_type :: string

text \<open>
  What \<^verbatim>\<open>await fetch(...)\<close> gives: the promise is rejected (a network error), or it is
  resolved with a response. \<^verbatim>\<open>response.text()\<close> and \<^verbatim>\<open>response.json()\<close> may
  throw in turn, which is \<open>None\<close>; \<open>json_body\<close> is also \<open>None\<close> when the parsed
  value has no fields to read (reading \<^verbatim>\<open>tokens.access_token\<close> throws).
\<close>

record response =
  ok :: bool
  text_body :: "string option"
  json_body :: "TokenResponse option"

datatype fetch_result = Rejected | Resolved response

text \<open>
  The target of \<^verbatim>\<open>window.location.href = `${base}?${params.toString()}`\<close>, with the
  parameters before their percent-encoding.
\<close>

record navigation =
  target :: string
  query :: "(string \<times> string) list"

text \<open>
  Everything the module reads and writes: the two storages, the provider's state, the
  requests issued so far (oldest first), the parameters of \<^verbatim>\<open>window.location.search\<close>
  and the navigation the page has started, if any.
\<close>

record page =
  localStorage :: storage
  sessionStorage :: storage
  auth :: auth_state
  requests :: "http_request list"
  location_search :: "(string \<times> string) list"
  navigated :: "navigation option"

subsection \<open>Numbers as strings\<close>

text \<open>\<^verbatim>\<open>Number.MAX_SAFE_INTEGER\<close> and \<^verbatim>\<open>Number.isSafeInteger\<close> on an integer.\<close>

definition MAX_SAFE_INTEGER :: int where
  "MAX_SAFE_INTEGER = 2 ^ 53 - 1"

definition isSafeInteger :: "int \<Rightarrow> bool" where
  "isSafeInteger i = (- MAX_SAFE_INTEGER \<le> i \<and> i \<le> MAX_SAFE_INTEGER)"

text \<open>
  \<^verbatim>\<open>Number.prototype.toString\<close> on a safe integer: all the decimal digits, with a
  minus sign for a negative number. The module is given no number outside that range to
  print by this function (see \<open>expiryTimeString\<close> below).
\<close>

fun natToString :: "nat \<Rightarrow> string" where
  "natToString n =
     (if n < 10 then [''0123456789'' ! n]
      else natToString (n div 10) @ [''0123456789'' ! (n mod 10)])"

declare natToString.simps [simp del]

definition numberToString :: "int \<Rightarrow> string" where
  "numberToString i = (if i < 0 then CHR ''-'' # natToString (nat (- i)) else natToString (nat i))"

text \<open>
  The string \<^verbatim>\<open>(Date.now() + (tokens.expires_in * 1000)).toString()\<close>. When the clock
  value, the product and the sum are safe integers, the two floating-point operations are
  exact and the string is the decimal digits of the sum. Otherwise the product or the sum
  may be rounded and the string may be in exponent notation (\<^verbatim>\<open>'1.0000000017e+21'\<close>);
  the string is then \<open>inexact now expires\<close>, whatever the browser's arithmetic gives
  for these two numbers.
\<close>

definition expiryTimeString :: "(int \<Rightarrow> int \<Rightarrow> string) \<Rightarrow> int \<Rightarrow> int \<Rightarrow> string" where
  "expiryTimeString inexact now expires =
     (let expiryTime = now + expires * 1000
      in if isSafeInteger now \<and> isSafeInteger (expires * 1000) \<and> isSafeInteger expiryTime
         then numberToString expiryTime
         else inexact now expires)"

text \<open>
  \<^verbatim>\<open>parseInt(s, 10)\<close>: leading white space is skipped, a sign is read, then the
  longest run of decimal digits; without a digit the result is \<^verbatim>\<open>NaN\<close>, which is
  \<open>None\<close>.
\<close>

definition isWhiteSpace :: "char \<Rightarrow> bool" where
  "isWhiteSpace c = ((of_char c :: nat) \<in> set [9, 10, 11, 12, 13, 32, 160])"

definition isDigit :: "char \<Rightarrow> bool" where
  "isDigit c = (48 \<le> (of_char c :: nat) \<and> (of_char c :: nat) \<le> 57)"

definition digitsValue :: "string \<Rightarrow> nat" where
  "digitsValue ds = foldl (\<lambda>n c. 10 * n + (of_char c - 48)) 0 ds"

definition parseInt :: "string \<Rightarrow> int option" where
  "parseInt s =
     (let s1 = dropWhile isWhiteSpace s;
          negative = (case s1 of [] \<Rightarrow> False | c # r \<Rightarrow> c = CHR ''-'');
          s2 = (case s1 of [] \<Rightarrow> []
                | c # r \<Rightarrow> if c = CHR ''+'' \<or> c = CHR ''-'' then r else s1);
          ds = takeWhile isDigit s2
      in if ds = [] then None
         else Some (if negative then - int (digitsValue ds) else int (digitsValue ds)))"

text \<open>\<^verbatim>\<open>Date.now() < expiryTime\<close>: a comparison with \<^verbatim>\<open>NaN\<close> is false.\<close>

definition lessThanNumber :: "int \<Rightarrow> int option \<Rightarrow> bool" where
  "lessThanNumber now expiryTime = (case expiryTime of None \<Rightarrow> False | Some e \<Rightarrow> now < e)"

subsection \<open>The provider's mount effect\<close>

text \<open>
  The \<^verbatim>\<open>useEffect\<close> of \<^verbatim>\<open>AuthProvider\<close> that checks for existing tokens;
  \<open>now\<close> is \<^verbatim>\<open>Date.now()\<close>. The test \<^verbatim>\<open>token && tokenExpiry\<close> holds when both
  values are there and not empty.
\<close>

definition mountEffect :: "int \<Rightarrow> page \<Rightarrow> page" where
  "mountEffect now p =
     (let token = localStorage p ''access_token'';
          tokenExpiry = localStorage p ''token_expiry'';
          p1 = (case (token, tokenExpiry) of
                  (Some t, Some e) \<Rightarrow>
                    if t \<noteq> [] \<and> e \<noteq> [] then
                      (let expiryTime = parseInt e
                       in if lessThanNumber now expiryTime
                          then p\<lparr>auth := (auth p)\<lparr>accessToken := Some t, isAuthenticated := True\<rparr>\<rparr>
                          else p\<lparr>localStorage := (localStorage p)
                                  (''access_token'' := None, ''id_token'' := None,
                                   ''refresh_token'' := None, ''token_expiry'' := None)\<rparr>)
                    else p
                | _ \<Rightarrow> p)
      in p1\<lparr>auth := (auth p1)\<lparr>isLoading := False\<rparr>\<rparr>)"

subsection \<open>\<^verbatim>\<open>login\<close>\<close>

text \<open>
  \<open>randomBase36\<close> is the string \<^verbatim>\<open>Math.random().toString(36)\<close>, \<open>random\<close> the bytes
  of \<^verbatim>\<open>crypto.getRandomValues\<close> and \<open>sha256\<close> the digest of
  \<^verbatim>\<open>crypto.subtle.digest('SHA-256', ...)\<close> on the encoded string. The asynchronous
  block is run to its end, where the page navigates away.
\<close>

definition login ::
  "oauth_config \<Rightarrow> string \<Rightarrow> (nat \<Rightarrow> byte) \<Rightarrow> (string \<Rightarrow> byte list) \<Rightarrow> page \<Rightarrow> page" where
  "login cfg randomBase36 random sha256 p =
     (let p1 = p\<lparr>sessionStorage := (sessionStorage p)(''isLoggingIn'' \<mapsto> ''1'')\<rparr>;
          state = drop 7 randomBase36;
          p2 = p1\<lparr>localStorage := (localStorage p1)(''oauth_state'' \<mapsto> state)\<rparr>
      in if redirectUri cfg = []
         then p2\<lparr>sessionStorage := (sessionStorage p2)(''isLoggingIn'' := None)\<rparr>
         else
           (let verifier = generateCodeVerifier random;
                p3 = p2\<lparr>sessionStorage := (sessionStorage p2)(''pkce_verifier'' \<mapsto> verifier)\<rparr>;
                challenge = base64UrlEncode (sha256 verifier);
                params = [(''response_type'', ''code''),
                          (''client_id'', clientId cfg),
                          (''redirect_uri'', redirectUri cfg),
                          (''scope'', scopes cfg),
                          (''state'', state),
                          (''code_challenge'', challenge),
                          (''code_challenge_method'', ''S256'')]
            in p3\<lparr>navigated := Some \<lparr>target = authUrl cfg, query = params\<rparr>\<rparr>))"

subsection \<open>\<^verbatim>\<open>handleAuthCallback\<close>\<close>

text \<open>
  The request of the token exchange, for the authorization code and the value read from
  \<^verbatim>\<open>sessionStorage.getItem('pkce_verifier')\<close>.
\<close>

definition tokenRequest :: "oauth_config \<Rightarrow> string \<Rightarrow> string option \<Rightarrow> http_request" where
  "tokenRequest cfg code verifier =
     (let tokenParams = [(''grant_type'', ''authorization_code''),
                         (''client_id'', clientId cfg),
                         (''code'', code),
                         (''redirect_uri'', redirectUri cfg)]
                        @ (case verifier of
                             None \<Rightarrow> []
                           | Some v \<Rightarrow> if v \<noteq> [] then [(''code_verifier'', v)] else []);
          hdrs = [(''Content-Type'', ''application/x-www-form-urlencoded'')]
                 @ (if clientSecret cfg \<noteq> []
                    then [(''Authorization'',
                           ''Basic '' @ btoa (clientId cfg @ '':'' @ clientSecret cfg))]
                    else [])
      in \<lparr>url = tokenUrl cfg, http_method = ''POST'', headers = hdrs, body = tokenParams\<rparr>)"

text \<open>
  \<open>fetch\<close> gives the outcome of the request, \<open>now\<close> is \<^verbatim>\<open>Date.now()\<close> when the
  expiry time is calculated, and \<open>inexact\<close> is the floating-point result for an expiry
  time outside the safe integers. The result is the boolean the promise resolves to and
  the page afterwards.
\<close>

definition handleAuthCallback ::
  "oauth_config \<Rightarrow> (http_request \<Rightarrow> fetch_result) \<Rightarrow> (int \<Rightarrow> int \<Rightarrow> string) \<Rightarrow> int
     \<Rightarrow> string \<Rightarrow> string \<Rightarrow> page \<Rightarrow> bool \<times> page" where
  "handleAuthCallback cfg fetch inexact now code state p =
     (let savedState = localStorage p ''oauth_state''
      in if Some state \<noteq> savedState
         then (False, p\<lparr>sessionStorage := (sessionStorage p)(''isLoggingIn'' := None)\<rparr>)
         else
           (let p1 = p\<lparr>localStorage := (localStorage p)(''oauth_state'' := None)\<rparr>;
                verifier = sessionStorage p1 ''pkce_verifier'';
                p2 = (if truthy verifier
                      then p1\<lparr>sessionStorage := (sessionStorage p1)(''pkce_verifier'' := None)\<rparr>
                      else p1);
                request = tokenRequest cfg code verifier;
                p3 = p2\<lparr>requests := requests p2 @ [request]\<rparr>;
                (success, p4) =
                  (case fetch request of
                     Rejected \<Rightarrow> (False, p3)
                   | Resolved r \<Rightarrow>
                       if \<not> ok r then (False, p3)
                       else
                         (case json_body r of
                            None \<Rightarrow> (False, p3)
                          | Some tokens \<Rightarrow>
                              (let l1 = (localStorage p3)
                                          (''access_token'' \<mapsto> access_token tokens,
                                           ''id_token'' \<mapsto> id_token tokens);
                                   l2 = (if truthy (refresh_token tokens)
                                         then l1(''refresh_token'' := refresh_token tokens)
                                         else l1);
                                   l3 = l2(''token_expiry'' \<mapsto>
                                             expiryTimeString inexact now (expires_in tokens))
                               in (True,
                                   p3\<lparr>localStorage := l3,
                                      auth := (auth p3)\<lparr>accessToken := Some (access_token tokens),
                                                       isAuthenticated := True\<rparr>\<rparr>))))
            in (success, p4\<lparr>sessionStorage := (sessionStorage p4)(''isLoggingIn'' := None)\<rparr>)))"

text \<open>
  The token exchange fails: the request throws, or the response is not a success, or the
  parsing of a success response throws.
\<close>

definition exchangeFails :: "fetch_result \<Rightarrow> bool" where
  "exchangeFails result =
     (case result of Rejected \<Rightarrow> True | Resolved r \<Rightarrow> \<not> ok r \<or> json_body r = None)"

subsection \<open>The effect of \<^verbatim>\<open>ProtectedRoute\<close>\<close>

record route_state =
  isProcessingCallback :: bool
  hasRedirected :: bool

text \<open>
  \<^verbatim>\<open>processCallback\<close>, with the \<^verbatim>\<open>login\<close> and the optional
  \<^verbatim>\<open>handleAuthCallback\<close> of the context value as parameters. The first branch is
  taken when \<^verbatim>\<open>code && state && auth.handleAuthCallback\<close> holds; the call is awaited,
  so the state is the one after the \<^verbatim>\<open>finally\<close> block. \<open>redirectToLogin\<close> is
  the \<^verbatim>\<open>else if\<close> branch, which is also where the effect ends up when a parameter
  or the handler is missing.
\<close>

definition redirectToLogin :: "(page \<Rightarrow> page) \<Rightarrow> route_state \<times> page \<Rightarrow> route_state \<times> page" where
  "redirectToLogin login_fn rp =
     (let r = fst rp; p = snd rp
      in if \<not> isLoading (auth p) \<and> \<not> isAuthenticated (auth p) \<and> \<not> hasRedirected r
         then
           (let justLoggedOut = sessionStorage p ''justLoggedOut''
            in if truthy justLoggedOut
               then (r\<lparr>hasRedirected := True\<rparr>,
                     p\<lparr>sessionStorage := (sessionStorage p)(''justLoggedOut'' := None)\<rparr>)
               else
                 (let logging = sessionStorage p ''isLoggingIn''
                  in if truthy logging
                     then (r\<lparr>hasRedirected := True\<rparr>, p)
                     else (r\<lparr>hasRedirected := True\<rparr>, login_fn p)))
         else (r, p))"

definition processCallback ::
  "(page \<Rightarrow> page) \<Rightarrow> (string \<Rightarrow> string \<Rightarrow> page \<Rightarrow> bool \<times> page) option
     \<Rightarrow> route_state \<times> page \<Rightarrow> route_state \<times> page" where
  "processCallback login_fn handler rp =
     (let r = fst rp; p = snd rp;
          code = map_of (location_search p) ''code'';
          state = map_of (location_search p) ''state''
      in case (code, state, handler) of
           (Some c, Some s, Some h) \<Rightarrow>
             if c \<noteq> [] \<and> s \<noteq> [] then
               (let (success, p1) = h c s p;
                    p2 = (if success then p1\<lparr>location_search := []\<rparr> else p1)
                in (r\<lparr>isProcessingCallback := False\<rparr>, p2))
             else redirectToLogin login_fn rp
         | _ \<Rightarrow> redirectToLogin login_fn rp)"


subsection \<open>Scenario data\<close>

text \<open>
  The data of the specification's scenarios: a page loaded at
  \<^verbatim>\<open>?code=abc&state=xyz\<close> with \<^verbatim>\<open>oauth_state=xyz\<close> stored, and a token endpoint
  that returns \<^verbatim>\<open>{access_token:"A", id_token:"I", expires_in:3600}\<close>.
\<close>

definition scenario_env :: envRecord where
  "scenario_env =
     \<lparr>VITE_OAUTH_AUTH_URL = Some ''https://idp.test/authorize'',
      VITE_OAUTH_TOKEN_URL = Some ''https://idp.test/token'',
      VITE_OAUTH_CLIENT_ID = Some ''hub'',
      VITE_OAUTH_CLIENT_SECRET = None,
      VITE_OAUTH_SCOPES = Some ''openid'',
      VITE_OAUTH_REDIRECT_URI = Some ''https://hub.test/''\<rparr>"

definition scenario_env_no_redirect :: envRecord where
  "scenario_env_no_redirect = scenario_env\<lparr>VITE_OAUTH_REDIRECT_URI := None\<rparr>"

definition callback_page :: page where
  "callback_page =
     \<lparr>localStorage = [''oauth_state'' \<mapsto> ''xyz''],
      sessionStorage = [''pkce_verifier'' \<mapsto> ''verifier'', ''isLoggingIn'' \<mapsto> ''1''],
      auth = initial_auth\<lparr>isLoading := False\<rparr>,
      requests = [],
      location_search = [(''code'', ''abc''), (''state'', ''xyz'')],
      navigated = None\<rparr>"

definition fresh_page :: page where
  "fresh_page =
     \<lparr>localStorage = Map.empty,
      sessionStorage = Map.empty,
      auth = initial_auth,
      requests = [],
      location_search = [],
      navigated = None\<rparr>"

definition scenario_tokens :: TokenResponse where
  "scenario_tokens =
     \<lparr>access_token = ''A'', id_token = ''I'', refresh_token = None,
      expires_in = 3600, token_type = ''Bearer''\<rparr>"

definition fetch_success :: "http_request \<Rightarrow> fetch_result" where
  "fetch_success req =
     Resolved \<lparr>ok = True, text_body = Some ''{}'', json_body = Some scenario_tokens\<rparr>"

definition fetch_failure :: "http_request \<Rightarrow> fetch_result" where
  "fetch_failure req =
     Resolved \<lparr>ok = False, text_body = Some ''invalid_grant'', json_body = None\<rparr>"

text \<open>The scenarios stay within the safe integers, where this is not consulted.\<close>

definition no_inexact :: "int \<Rightarrow> int \<Rightarrow> string" where
  "no_inexact now expires = []"

definition zero_bytes :: "nat \<Rightarrow> byte" where
  "zero_bytes i = 0"

definition zero_digest :: "string \<Rightarrow> byte list" where
  "zero_digest s = replicate 32 0"


text \<open>Pages with stored tokens, at the time \<open>2000\<close> of the clock.\<close>

definition expired_page :: page where
  "expired_page =
     fresh_page\<lparr>localStorage :=
       [''access_token'' \<mapsto> ''A'', ''id_token'' \<mapsto> ''I'',
        ''refresh_token'' \<mapsto> ''R'', ''token_expiry'' \<mapsto> ''1500'']\<rparr>"

definition empty_token_page :: page where
  "empty_token_page =
     fresh_page\<lparr>localStorage :=
       [''access_token'' \<mapsto> [], ''id_token'' \<mapsto> ''I'', ''token_expiry'' \<mapsto> ''1500'']\<rparr>"

definition partial_page :: page where
  "partial_page =
     fresh_page\<lparr>localStorage := [''access_token'' \<mapsto> ''A'', ''id_token'' \<mapsto> ''I'']\<rparr>"

definition expiry_only_page :: page where
  "expiry_only_page =
     fresh_page\<lparr>localStorage := [''refresh_token'' \<mapsto> ''R'', ''token_expiry'' \<mapsto> ''1500'']\<rparr>"

text \<open>A page after \<^verbatim>\<open>logout\<close> has set its marker, with the loading finished.\<close>

definition logged_out_page :: page where
  "logged_out_page =
     fresh_page\<lparr>sessionStorage := [''justLoggedOut'' \<mapsto> ''1''],
                auth := initial_auth\<lparr>isLoading := False\<rparr>\<rparr>"

definition initial_route :: route_state where
  "initial_route = \<lparr>isProcessingCallback = False, hasRedirected = False\<rparr>"


text \<open>
  Pages on which the loading is finished and nobody is signed in: with a login under way,
  and with no marker at all.
\<close>

definition logging_in_page :: page where
  "logging_in_page =
     fresh_page\<lparr>sessionStorage := [''isLoggingIn'' \<mapsto> ''1''],
                auth := initial_auth\<lparr>isLoading := False\<rparr>\<rparr>"

definition idle_page :: page where
  "idle_page = fresh_page\<lparr>auth := initial_auth\<lparr>isLoading := False\<rparr>\<rparr>"

text \<open>The \<^verbatim>\<open>login\<close> and \<^verbatim>\<open>handleAuthCallback\<close> of the context value in the scenarios.\<close>

definition scenario_login :: "page \<Rightarrow> page" where
  "scenario_login = login (OAUTH_CONFIG scenario_env) ''0.4fzyo82mvyr'' zero_bytes zero_digest"

definition scenario_handler :: "string \<Rightarrow> string \<Rightarrow> page \<Rightarrow> bool \<times> page" where
  "scenario_handler =
     handleAuthCallback (OAUTH_CONFIG scenario_env) fetch_success no_inexact 1700000000000"


section \<open>Properties\<close>

subsection \<open>The base64url encoding\<close>

lemma sextet_in_alphabet: "sextet n \<in> set base64_alphabet"
proof -
  have "n mod 64 < length base64_alphabet"
    by (simp add: base64_alphabet_def)
  then show ?thesis
    unfolding sextet_def by (rule nth_mem)
qed

lemma base64_alphabet_no_pad: "c \<in> set base64_alphabet \<Longrightarrow> c \<noteq> CHR ''=''"
  by (auto simp: base64_alphabet_def)

lemma url_char_in_alphabet:
  assumes "c \<in> set base64_alphabet"
  shows "(if (if c = CHR ''+'' then CHR ''-'' else c) = CHR ''/'' then CHR ''_''
          else (if c = CHR ''+'' then CHR ''-'' else c)) \<in> set base64url_alphabet"
  using assms by (auto simp: base64_alphabet_def base64url_alphabet_def)

text \<open>
  The shape of \<^verbatim>\<open>btoa\<close>'s result: a core over the base64 alphabet, whose length is
  the number of sextets that \<open>8 * length s\<close> bits need, and the padding.
\<close>

lemma btoa_shape:
  "\<exists>core. btoa s = core @ replicate ((3 - length s mod 3) mod 3) CHR ''=''
        \<and> set core \<subseteq> set base64_alphabet
        \<and> length core = (4 * length s + 2) div 3"
proof (induction s rule: btoa.induct)
  case 1
  show ?case by simp
next
  case (2 a)
  show ?case
    by (rule exI [of _ "[sextet (of_char a div 4), sextet ((of_char a mod 4) * 16)]"])
       (simp add: sextet_in_alphabet Let_def numeral_2_eq_2)
next
  case (3 a b)
  show ?case
    by (rule exI [of _ "[sextet (of_char a div 4),
                         sextet ((of_char a mod 4) * 16 + of_char b div 16),
                         sextet ((of_char b mod 16) * 4)]"])
       (simp add: sextet_in_alphabet Let_def)
next
  case (4 a b c rest)
  then obtain core where core:
    "btoa rest = core @ replicate ((3 - length rest mod 3) mod 3) CHR ''=''"
    "set core \<subseteq> set base64_alphabet"
    "length core = (4 * length rest + 2) div 3"
    by blast
  let ?quad = "[sextet (of_char a div 4),
                sextet ((of_char a mod 4) * 16 + of_char b div 16),
                sextet ((of_char b mod 16) * 4 + of_char c div 64),
                sextet (of_char c mod 64)]"
  have len: "length (a # b # c # rest) mod 3 = length rest mod 3"
    by simp
  have "btoa (a # b # c # rest) =
          (?quad @ core) @ replicate ((3 - length (a # b # c # rest) mod 3) mod 3) CHR ''=''"
    unfolding len by (simp add: core(1) Let_def)
  moreover have "set (?quad @ core) \<subseteq> set base64_alphabet"
    using core(2) by (simp add: sextet_in_alphabet)
  moreover have "length (?quad @ core) = (4 * length (a # b # c # rest) + 2) div 3"
    using core(3) by simp
  ultimately show ?case by blast
qed

lemma strip_padding_body:
  assumes "core = [] \<or> last core \<noteq> CHR ''=''"
  shows "strip_padding (core @ replicate k CHR ''='') = core"
proof -
  have "dropWhile (\<lambda>x. x = CHR ''='') (replicate k CHR ''='' @ rev core) = rev core"
  proof (cases "core = []")
    case True
    then show ?thesis by simp
  next
    case False
    with assms have "hd (rev core) \<noteq> CHR ''=''"
      by (simp add: hd_rev)
    moreover from False have "rev core \<noteq> []" by simp
    ultimately have "dropWhile (\<lambda>x. x = CHR ''='') (rev core) = rev core"
      by (cases "rev core") simp_all
    then show ?thesis
      by (simp add: dropWhile_append)
  qed
  then show ?thesis
    by (simp add: strip_padding_def)
qed

lemma base64UrlEncode_shape:
  "length (base64UrlEncode bytes) = (4 * length bytes + 2) div 3
   \<and> set (base64UrlEncode bytes) \<subseteq> set base64url_alphabet"
proof -
  let ?s = "map fromCharCode bytes"
  let ?url = "\<lambda>x. if (if x = CHR ''+'' then CHR ''-'' else x) = CHR ''/'' then CHR ''_''
                   else (if x = CHR ''+'' then CHR ''-'' else x)"
  obtain core where core:
    "btoa ?s = core @ replicate ((3 - length ?s mod 3) mod 3) CHR ''=''"
    "set core \<subseteq> set base64_alphabet"
    "length core = (4 * length ?s + 2) div 3"
    using btoa_shape [of ?s] by blast
  have url_body: "set (map ?url core) \<subseteq> set base64url_alphabet"
  proof
    fix c
    assume "c \<in> set (map ?url core)"
    then obtain x where x: "x \<in> set core" "c = ?url x"
      by auto
    from x(1) core(2) have "x \<in> set base64_alphabet"
      by blast
    then show "c \<in> set base64url_alphabet"
      unfolding x(2) by (rule url_char_in_alphabet)
  qed
  have no_pad: "\<And>c. c \<in> set base64url_alphabet \<Longrightarrow> c \<noteq> CHR ''=''"
    by (auto simp: base64url_alphabet_def)
  have last_ok: "map ?url core = [] \<or> last (map ?url core) \<noteq> CHR ''=''"
  proof (cases "core = []")
    case True
    then show ?thesis by simp
  next
    case False
    then have "last (map ?url core) \<in> set (map ?url core)"
      by (intro last_in_set) simp
    with url_body no_pad show ?thesis by blast
  qed
  have "replace_char CHR ''/'' CHR ''_'' (replace_char CHR ''+'' CHR ''-'' (btoa ?s))
          = map ?url core @ replicate ((3 - length ?s mod 3) mod 3) CHR ''=''"
    by (simp add: core(1) replace_char_def)
  then have "base64UrlEncode bytes = map ?url core"
    using strip_padding_body [OF last_ok]
    by (simp add: base64UrlEncode_def)
  with url_body core(3) show ?thesis by simp
qed

text \<open>
  C9. \<^verbatim>\<open>generateCodeVerifier()\<close> always returns a string of exactly 43 characters of the
  base64url alphabet, without the padding character, whatever the 32 random bytes are;
  43 lies in the range from 43 to 128 that PKCE asks for.
\<close>

theorem generateCodeVerifier_43:
  "length (generateCodeVerifier random) = 43
   \<and> set (generateCodeVerifier random) \<subseteq> set base64url_alphabet
   \<and> CHR ''='' \<notin> set (generateCodeVerifier random)
   \<and> 43 \<le> length (generateCodeVerifier random)
   \<and> length (generateCodeVerifier random) \<le> 128"
proof -
  have shape: "length (generateCodeVerifier random) = 43"
    "set (generateCodeVerifier random) \<subseteq> set base64url_alphabet"
    using base64UrlEncode_shape [of "map random [0..<32]"]
    by (simp_all add: generateCodeVerifier_def)
  have "CHR ''='' \<notin> set base64url_alphabet"
    by (simp add: base64url_alphabet_def)
  with shape show ?thesis by auto
qed

theorem generateCodeVerifier_43_witness:
  "generateCodeVerifier zero_bytes = ''AAAAAAAAAAAAAAAAAAAAAAAAAAAAAAAAAAAAAAAAAAA''
   \<and> length (generateCodeVerifier zero_bytes) = 43"
  using generateCodeVerifier_43 [of zero_bytes]
  by (simp add: generateCodeVerifier_def base64UrlEncode_def fromCharCode_def upt_rec
      sextet_def base64_alphabet_def replace_char_def strip_padding_def zero_bytes_def)

subsection \<open>Numbers written to storage are read back\<close>

lemma digit_code:
  assumes "d < 10"
  shows "(of_char (''0123456789'' ! d) :: nat) = 48 + d"
proof -
  from assms have "d = 0 \<or> d = 1 \<or> d = 2 \<or> d = 3 \<or> d = 4 \<or> d = 5 \<or> d = 6 \<or> d = 7 \<or> d = 8 \<or> d = 9"
    by arith
  then show ?thesis
    by (elim disjE) simp_all
qed

lemma digit_isDigit: "d < 10 \<Longrightarrow> isDigit (''0123456789'' ! d)"
  by (simp add: isDigit_def digit_code)

lemma digit_not_space: "d < 10 \<Longrightarrow> \<not> isWhiteSpace (''0123456789'' ! d)"
  by (simp add: isWhiteSpace_def digit_code)

lemma digit_not_sign:
  "d < 10 \<Longrightarrow> ''0123456789'' ! d \<noteq> CHR ''+'' \<and> ''0123456789'' ! d \<noteq> CHR ''-''"
  using digit_code [of d] by auto

lemma natToString_digits: "\<forall>c \<in> set (natToString n). isDigit c"
proof (induction n rule: natToString.induct)
  case (1 n)
  show ?case
  proof (cases "n < 10")
    case True
    then show ?thesis
      by (subst natToString.simps) (simp add: digit_isDigit)
  next
    case False
    with 1 show ?thesis
      by (subst natToString.simps) (simp add: digit_isDigit)
  qed
qed

lemma natToString_shape:
  "\<exists>d ds. natToString n = (''0123456789'' ! d) # ds \<and> d < 10"
proof (induction n rule: natToString.induct)
  case (1 n)
  show ?case
  proof (cases "n < 10")
    case True
    then show ?thesis
      by (subst natToString.simps) auto
  next
    case False
    with 1 obtain d ds where "natToString (n div 10) = (''0123456789'' ! d) # ds" "d < 10"
      by blast
    with False show ?thesis
      by (subst natToString.simps) auto
  qed
qed

lemma digitsValue_snoc: "digitsValue (ds @ [c]) = 10 * digitsValue ds + (of_char c - 48)"
  by (simp add: digitsValue_def)

lemma digitsValue_natToString: "digitsValue (natToString n) = n"
proof (induction n rule: natToString.induct)
  case (1 n)
  show ?case
  proof (cases "n < 10")
    case True
    then show ?thesis
      by (subst natToString.simps) (simp add: digitsValue_def digit_code)
  next
    case False
    with 1 have "digitsValue (natToString (n div 10)) = n div 10"
      by simp
    with False show ?thesis
      by (subst natToString.simps) (simp add: digitsValue_snoc digit_code)
  qed
qed

lemma natToString_nonempty: "natToString n \<noteq> []"
  by (subst natToString.simps) simp

lemma isDigit_plain:
  assumes "isDigit c"
  shows "\<not> isWhiteSpace c" and "c \<noteq> CHR ''+''" and "c \<noteq> CHR ''-''"
  using assms by (auto simp: isDigit_def isWhiteSpace_def)

lemma parseInt_digits:
  assumes "s \<noteq> []" and "\<forall>c \<in> set s. isDigit c"
  shows "parseInt s = Some (int (digitsValue s))"
    and "parseInt (CHR ''-'' # s) = Some (- int (digitsValue s))"
proof -
  from assms obtain c r where s: "s = c # r" and c: "isDigit c"
    by (cases s) auto
  have all: "takeWhile isDigit s = s"
    using assms(2) by simp
  have keep: "dropWhile isWhiteSpace s = s"
    using s isDigit_plain(1) [OF c] by simp
  show "parseInt s = Some (int (digitsValue s))"
    unfolding parseInt_def keep
    using isDigit_plain(2,3) [OF c] assms(1) all [unfolded s]
    by (simp add: s Let_def del: takeWhile_eq_all_conv)
  have "\<not> isWhiteSpace CHR ''-''"
    by (simp add: isWhiteSpace_def)
  then show "parseInt (CHR ''-'' # s) = Some (- int (digitsValue s))"
    using assms(1) by (simp add: parseInt_def Let_def all)
qed

lemma parseInt_numberToString: "parseInt (numberToString i) = Some i"
proof (cases "i < 0")
  case False
  then show ?thesis
    using parseInt_digits(1) [OF natToString_nonempty natToString_digits, of "nat i"]
    by (simp add: numberToString_def digitsValue_natToString)
next
  case True
  then show ?thesis
    using parseInt_digits(2) [OF natToString_nonempty natToString_digits, of "nat (- i)"]
    by (simp add: numberToString_def digitsValue_natToString)
qed


subsection \<open>The callback handler\<close>

text \<open>
  C1. Whatever is stored under \<^verbatim>\<open>oauth_state\<close>, also nothing: when the \<open>state\<close>
  argument is not the stored value, \<^verbatim>\<open>handleAuthCallback\<close> returns false and issues no
  request (the list of the requests is the one before the call).
\<close>

theorem handleAuthCallback_state_mismatch:
  assumes "localStorage p ''oauth_state'' \<noteq> Some state"
  shows "fst (handleAuthCallback cfg fetch inexact now code state p) = False
         \<and> requests (snd (handleAuthCallback cfg fetch inexact now code state p)) = requests p"
  using assms by (auto simp: handleAuthCallback_def)

theorem handleAuthCallback_state_mismatch_witness:
  "localStorage callback_page ''oauth_state'' = Some ''xyz''
   \<and> fst (handleAuthCallback (OAUTH_CONFIG scenario_env) fetch_success no_inexact 1000 ''abc'' ''forged''
          callback_page) = False
   \<and> requests (snd (handleAuthCallback (OAUTH_CONFIG scenario_env) fetch_success no_inexact 1000 ''abc''
          ''forged'' callback_page)) = []
   \<and> localStorage fresh_page ''oauth_state'' = None
   \<and> fst (handleAuthCallback (OAUTH_CONFIG scenario_env) fetch_success no_inexact 1000 ''abc'' ''xyz''
          fresh_page) = False
   \<and> requests (snd (handleAuthCallback (OAUTH_CONFIG scenario_env) fetch_success no_inexact 1000 ''abc''
          ''xyz'' fresh_page)) = []"
  using handleAuthCallback_state_mismatch
    [where p = callback_page and state = "''forged''" and cfg = "OAUTH_CONFIG scenario_env"
       and fetch = fetch_success and inexact = no_inexact and now = 1000 and code = "''abc''"]
    handleAuthCallback_state_mismatch
    [where p = fresh_page and state = "''xyz''" and cfg = "OAUTH_CONFIG scenario_env"
       and fetch = fetch_success and inexact = no_inexact and now = 1000 and code = "''abc''"]
  by (simp add: callback_page_def fresh_page_def)

text \<open>
  C2, as stated, fails: a call with a state that does not match returns false and leaves
  both the CSRF state and the PKCE verifier in storage.
\<close>

theorem handleAuthCallback_mismatch_keeps_secrets:
  "fst (handleAuthCallback (OAUTH_CONFIG scenario_env) fetch_success no_inexact 1000 ''abc'' ''forged''
          callback_page) = False
   \<and> localStorage (snd (handleAuthCallback (OAUTH_CONFIG scenario_env) fetch_success no_inexact 1000 ''abc''
          ''forged'' callback_page)) ''oauth_state'' = Some ''xyz''
   \<and> sessionStorage (snd (handleAuthCallback (OAUTH_CONFIG scenario_env) fetch_success no_inexact 1000 ''abc''
          ''forged'' callback_page)) ''pkce_verifier'' = Some ''verifier''"
  by (simp add: handleAuthCallback_def callback_page_def)

text \<open>
  C2, amended. When the \<open>state\<close> argument is the stored CSRF state, then after the call,
  whatever it returns, nothing is stored under \<^verbatim>\<open>oauth_state\<close> and no verifier (no
  value that is not empty) is stored under \<^verbatim>\<open>pkce_verifier\<close>. When it is not, both
  keys hold what they held before.
\<close>

theorem handleAuthCallback_single_use:
  "(if localStorage p ''oauth_state'' = Some state
    then localStorage (snd (handleAuthCallback cfg fetch inexact now code state p)) ''oauth_state'' = None
         \<and> \<not> truthy (sessionStorage (snd (handleAuthCallback cfg fetch inexact now code state p))
                       ''pkce_verifier'')
    else localStorage (snd (handleAuthCallback cfg fetch inexact now code state p)) ''oauth_state''
           = localStorage p ''oauth_state''
         \<and> sessionStorage (snd (handleAuthCallback cfg fetch inexact now code state p)) ''pkce_verifier''
           = sessionStorage p ''pkce_verifier'')"
  by (auto simp: handleAuthCallback_def Let_def truthy_def
           split: prod.splits fetch_result.splits option.splits)

theorem handleAuthCallback_single_use_witness:
  "localStorage callback_page ''oauth_state'' = Some ''xyz''
   \<and> localStorage (snd (handleAuthCallback (OAUTH_CONFIG scenario_env) fetch_failure no_inexact 1000 ''abc''
          ''xyz'' callback_page)) ''oauth_state'' = None
   \<and> sessionStorage (snd (handleAuthCallback (OAUTH_CONFIG scenario_env) fetch_failure no_inexact 1000 ''abc''
          ''xyz'' callback_page)) ''pkce_verifier'' = None"
  using handleAuthCallback_single_use
    [where p = callback_page and state = "''xyz''" and cfg = "OAUTH_CONFIG scenario_env"
       and fetch = fetch_failure and inexact = no_inexact and now = 1000 and code = "''abc''"]
  by (simp add: handleAuthCallback_def callback_page_def fetch_failure_def truthy_def)

text \<open>
  C3. When the token exchange fails (the request throws, the response is not a success,
  or the parsing throws), \<^verbatim>\<open>handleAuthCallback\<close> returns false, and the provider's
  state and the four stored token fields are what they were before the call.
\<close>

theorem handleAuthCallback_failure_frame:
  assumes "exchangeFails (fetch (tokenRequest cfg code (sessionStorage p ''pkce_verifier'')))"
  shows "fst (handleAuthCallback cfg fetch inexact now code state p) = False
         \<and> auth (snd (handleAuthCallback cfg fetch inexact now code state p)) = auth p
         \<and> localStorage (snd (handleAuthCallback cfg fetch inexact now code state p)) ''access_token''
             = localStorage p ''access_token''
         \<and> localStorage (snd (handleAuthCallback cfg fetch inexact now code state p)) ''id_token''
             = localStorage p ''id_token''
         \<and> localStorage (snd (handleAuthCallback cfg fetch inexact now code state p)) ''refresh_token''
             = localStorage p ''refresh_token''
         \<and> localStorage (snd (handleAuthCallback cfg fetch inexact now code state p)) ''token_expiry''
             = localStorage p ''token_expiry''"
  using assms
  by (auto simp: handleAuthCallback_def Let_def exchangeFails_def
           split: prod.splits fetch_result.splits option.splits if_splits)

theorem handleAuthCallback_failure_frame_witness:
  "exchangeFails (fetch_failure (tokenRequest (OAUTH_CONFIG scenario_env) ''abc''
       (sessionStorage callback_page ''pkce_verifier'')))
   \<and> fst (handleAuthCallback (OAUTH_CONFIG scenario_env) fetch_failure no_inexact 1000 ''abc'' ''xyz''
          callback_page) = False
   \<and> auth (snd (handleAuthCallback (OAUTH_CONFIG scenario_env) fetch_failure no_inexact 1000 ''abc'' ''xyz''
          callback_page)) = auth callback_page
   \<and> length (requests (snd (handleAuthCallback (OAUTH_CONFIG scenario_env) fetch_failure no_inexact 1000
          ''abc'' ''xyz'' callback_page))) = 1
   \<and> localStorage (snd (handleAuthCallback (OAUTH_CONFIG scenario_env) fetch_failure no_inexact 1000 ''abc''
          ''xyz'' callback_page)) ''access_token'' = None"
  using handleAuthCallback_failure_frame
    [where p = callback_page and state = "''xyz''" and cfg = "OAUTH_CONFIG scenario_env"
       and fetch = fetch_failure and inexact = no_inexact and now = 1000 and code = "''abc''"]
  by (simp add: handleAuthCallback_def callback_page_def fetch_failure_def truthy_def
      exchangeFails_def)

text \<open>
  C4. After \<^verbatim>\<open>handleAuthCallback\<close>, on every path (state mismatch, rejected request,
  response that is not a success, parsing failure, success), nothing is stored under
  \<^verbatim>\<open>isLoggingIn\<close>.
\<close>

theorem handleAuthCallback_clears_isLoggingIn:
  "sessionStorage (snd (handleAuthCallback cfg fetch inexact now code state p)) ''isLoggingIn'' = None"
  by (simp add: handleAuthCallback_def Let_def split: prod.splits fetch_result.splits option.splits)

theorem handleAuthCallback_clears_isLoggingIn_witness:
  "sessionStorage callback_page ''isLoggingIn'' = Some ''1''
   \<and> sessionStorage (snd (handleAuthCallback (OAUTH_CONFIG scenario_env) fetch_success no_inexact 1000
        ''abc'' ''xyz'' callback_page)) ''isLoggingIn'' = None"
  using handleAuthCallback_clears_isLoggingIn
    [where p = callback_page and state = "''xyz''" and cfg = "OAUTH_CONFIG scenario_env"
       and fetch = fetch_success and inexact = no_inexact and now = 1000 and code = "''abc''"]
  by (simp add: callback_page_def)

text \<open>
  C5. With the stored state as argument and a success response whose body parses to
  \<open>tokens\<close>, \<^verbatim>\<open>handleAuthCallback\<close> returns true; it stores the access token and the
  ID token; the refresh token is stored when the response has one (not empty) and the key
  is left alone otherwise; the provider's state is authenticated with the access token of
  the response. When the clock value, \<open>expires_in * 1000\<close> and their sum are safe
  integers, as they are for a real clock and a lifetime in seconds, \<^verbatim>\<open>token_expiry\<close>
  holds the decimal digits of \<open>now + expires_in * 1000\<close>, which \<^verbatim>\<open>parseInt\<close> reads
  back as that number of milliseconds.
\<close>

theorem handleAuthCallback_success:
  assumes "localStorage p ''oauth_state'' = Some state"
    and "fetch (tokenRequest cfg code (sessionStorage p ''pkce_verifier'')) = Resolved r"
    and "ok r"
    and "json_body r = Some tokens"
    and "isSafeInteger now"
    and "isSafeInteger (expires_in tokens * 1000)"
    and "isSafeInteger (now + expires_in tokens * 1000)"
  shows "fst (handleAuthCallback cfg fetch inexact now code state p) = True
         \<and> localStorage (snd (handleAuthCallback cfg fetch inexact now code state p))
             ''access_token'' = Some (access_token tokens)
         \<and> localStorage (snd (handleAuthCallback cfg fetch inexact now code state p))
             ''id_token'' = Some (id_token tokens)
         \<and> localStorage (snd (handleAuthCallback cfg fetch inexact now code state p))
             ''refresh_token''
             = (if truthy (refresh_token tokens) then refresh_token tokens
                else localStorage p ''refresh_token'')
         \<and> localStorage (snd (handleAuthCallback cfg fetch inexact now code state p))
             ''token_expiry'' = Some (numberToString (now + expires_in tokens * 1000))
         \<and> parseInt (numberToString (now + expires_in tokens * 1000))
             = Some (now + expires_in tokens * 1000)
         \<and> auth (snd (handleAuthCallback cfg fetch inexact now code state p))
             = (auth p)\<lparr>accessToken := Some (access_token tokens), isAuthenticated := True\<rparr>"
  using assms
  by (simp add: handleAuthCallback_def expiryTimeString_def Let_def parseInt_numberToString)

theorem handleAuthCallback_success_witness:
  "isSafeInteger 1700000000000
   \<and> isSafeInteger (expires_in scenario_tokens * 1000)
   \<and> isSafeInteger (1700000000000 + expires_in scenario_tokens * 1000)
   \<and> fst (handleAuthCallback (OAUTH_CONFIG scenario_env) fetch_success no_inexact
          1700000000000 ''abc'' ''xyz'' callback_page) = True
   \<and> localStorage (snd (handleAuthCallback (OAUTH_CONFIG scenario_env) fetch_success no_inexact
          1700000000000 ''abc'' ''xyz'' callback_page)) ''access_token'' = Some ''A''
   \<and> localStorage (snd (handleAuthCallback (OAUTH_CONFIG scenario_env) fetch_success no_inexact
          1700000000000 ''abc'' ''xyz'' callback_page)) ''refresh_token'' = None
   \<and> localStorage (snd (handleAuthCallback (OAUTH_CONFIG scenario_env) fetch_success no_inexact
          1700000000000 ''abc'' ''xyz'' callback_page)) ''token_expiry'' = Some ''1700003600000''
   \<and> isAuthenticated (auth (snd (handleAuthCallback (OAUTH_CONFIG scenario_env) fetch_success
          no_inexact 1700000000000 ''abc'' ''xyz'' callback_page)))"
  using handleAuthCallback_success
    [where p = callback_page and state = "''xyz''" and cfg = "OAUTH_CONFIG scenario_env"
       and fetch = fetch_success and inexact = no_inexact and now = 1700000000000
       and code = "''abc''" and tokens = scenario_tokens
       and r = "\<lparr>ok = True, text_body = Some ''{}'', json_body = Some scenario_tokens\<rparr>"]
  by (simp add: handleAuthCallback_def expiryTimeString_def callback_page_def fetch_success_def
      scenario_tokens_def truthy_def numberToString_def natToString.simps isSafeInteger_def
      MAX_SAFE_INTEGER_def)

text \<open>
  Outside the safe integers the stored string is the one the floating-point arithmetic
  gives, about which the model says nothing more.
\<close>

lemma expiryTimeString_inexact:
  assumes "\<not> isSafeInteger (now + expires * 1000)"
  shows "expiryTimeString inexact now expires = inexact now expires"
  using assms by (simp add: expiryTimeString_def Let_def)

subsection \<open>The mount effect\<close>

text \<open>
  C6, as stated, fails: a stored record whose access token is the empty string and whose
  expiry time has passed is not purged, since \<^verbatim>\<open>token && tokenExpiry\<close> is false for
  it. (The callback handler stores the access token of the response as it is, so such a
  record is stored when the token endpoint answers with an empty access token.)
\<close>

theorem mountEffect_empty_token_not_purged:
  "parseInt ''1500'' = Some 1500
   \<and> localStorage (mountEffect 2000 empty_token_page) ''access_token'' = Some []
   \<and> localStorage (mountEffect 2000 empty_token_page) ''id_token'' = Some ''I''
   \<and> localStorage (mountEffect 2000 empty_token_page) ''token_expiry'' = Some ''1500''"
  by (simp add: mountEffect_def empty_token_page_def fresh_page_def parseInt_def
      isWhiteSpace_def isDigit_def digitsValue_def)

text \<open>
  C6, amended. For a stored record whose access token is not empty and whose
  \<^verbatim>\<open>token_expiry\<close> reads as a time at or before \<open>now\<close>, the mount effect does not
  touch the authenticated flag nor the access token of the provider's state (it only clears
  the loading flag), and afterwards none of the four token fields is in storage.
\<close>

theorem mountEffect_purges_expired:
  assumes "localStorage p ''access_token'' = Some token"
    and "token \<noteq> []"
    and "localStorage p ''token_expiry'' = Some tokenExpiry"
    and "parseInt tokenExpiry = Some expiryTime"
    and "expiryTime \<le> now"
  shows "auth (mountEffect now p) = (auth p)\<lparr>isLoading := False\<rparr>
         \<and> localStorage (mountEffect now p) ''access_token'' = None
         \<and> localStorage (mountEffect now p) ''id_token'' = None
         \<and> localStorage (mountEffect now p) ''refresh_token'' = None
         \<and> localStorage (mountEffect now p) ''token_expiry'' = None"
proof -
  from assms(4) have "tokenExpiry \<noteq> []"
    by (auto simp: parseInt_def)
  with assms show ?thesis
    by (simp add: mountEffect_def lessThanNumber_def)
qed

theorem mountEffect_purges_expired_witness:
  "localStorage expired_page ''access_token'' = Some ''A''
   \<and> localStorage expired_page ''token_expiry'' = Some ''1500''
   \<and> parseInt ''1500'' = Some 1500
   \<and> \<not> isAuthenticated (auth (mountEffect 2000 expired_page))
   \<and> localStorage (mountEffect 2000 expired_page) ''access_token'' = None
   \<and> localStorage (mountEffect 2000 expired_page) ''id_token'' = None
   \<and> localStorage (mountEffect 2000 expired_page) ''refresh_token'' = None
   \<and> localStorage (mountEffect 2000 expired_page) ''token_expiry'' = None"
  using mountEffect_purges_expired [of expired_page "''A''" "''1500''" 1500 2000]
  by (simp add: expired_page_def fresh_page_def initial_auth_def parseInt_def
      isWhiteSpace_def isDigit_def digitsValue_def)

text \<open>
  C10. With a partial record in storage (an access token without an expiry time, or an
  expiry time without an access token; more generally, whenever one of the two is missing
  or empty), the mount effect of a provider that is not authenticated ends
  unauthenticated, with the loading flag cleared, and the storage is the same map as
  before: nothing is removed.
\<close>

theorem mountEffect_partial_record:
  assumes "\<not> (truthy (localStorage p ''access_token'') \<and> truthy (localStorage p ''token_expiry''))"
    and "\<not> isAuthenticated (auth p)"
  shows "\<not> isAuthenticated (auth (mountEffect now p))
         \<and> \<not> isLoading (auth (mountEffect now p))
         \<and> localStorage (mountEffect now p) = localStorage p"
  using assms
  by (auto simp: mountEffect_def truthy_def split: option.splits)

theorem mountEffect_partial_record_witness:
  "localStorage partial_page ''access_token'' = Some ''A''
   \<and> localStorage partial_page ''token_expiry'' = None
   \<and> \<not> isAuthenticated (auth (mountEffect 2000 partial_page))
   \<and> \<not> isLoading (auth (mountEffect 2000 partial_page))
   \<and> localStorage (mountEffect 2000 partial_page) ''access_token'' = Some ''A''
   \<and> localStorage (mountEffect 2000 partial_page) ''id_token'' = Some ''I''
   \<and> localStorage expiry_only_page ''access_token'' = None
   \<and> localStorage expiry_only_page ''token_expiry'' = Some ''1500''
   \<and> \<not> isAuthenticated (auth (mountEffect 2000 expiry_only_page))
   \<and> localStorage (mountEffect 2000 expiry_only_page) ''token_expiry'' = Some ''1500''
   \<and> localStorage (mountEffect 2000 expiry_only_page) ''refresh_token'' = Some ''R''"
  using mountEffect_partial_record [of partial_page 2000]
    mountEffect_partial_record [of expiry_only_page 2000]
  by (simp add: partial_page_def expiry_only_page_def fresh_page_def initial_auth_def truthy_def)

subsection \<open>Login without a redirect URI\<close>

text \<open>
  C7, as stated, fails: without a redirect URI \<^verbatim>\<open>login\<close> does not navigate, but the
  CSRF state token is written under \<^verbatim>\<open>oauth_state\<close> before the redirect URI is
  looked at.
\<close>

theorem login_without_redirect_stores_state:
  "VITE_OAUTH_REDIRECT_URI scenario_env_no_redirect = None
   \<and> navigated (login (OAUTH_CONFIG scenario_env_no_redirect) ''0.4fzyo82mvyr'' zero_bytes
        zero_digest fresh_page) = None
   \<and> localStorage fresh_page ''oauth_state'' = None
   \<and> localStorage (login (OAUTH_CONFIG scenario_env_no_redirect) ''0.4fzyo82mvyr'' zero_bytes
        zero_digest fresh_page) ''oauth_state'' = Some ''82mvyr''"
  by (simp add: login_def OAUTH_CONFIG_def orEmpty_def scenario_env_no_redirect_def
      scenario_env_def fresh_page_def)

text \<open>
  C7, amended. When the redirect URI is not configured (undefined or empty),
  \<^verbatim>\<open>login\<close> does not navigate, leaves nothing under \<^verbatim>\<open>isLoggingIn\<close> and does not
  touch \<^verbatim>\<open>pkce_verifier\<close>; the CSRF state token, the random string from its eighth
  character on, is stored under \<^verbatim>\<open>oauth_state\<close> all the same.
\<close>

theorem login_without_redirect:
  assumes "\<not> truthy (VITE_OAUTH_REDIRECT_URI env)"
  shows "navigated (login (OAUTH_CONFIG env) randomBase36 random sha256 p) = navigated p
         \<and> sessionStorage (login (OAUTH_CONFIG env) randomBase36 random sha256 p) ''isLoggingIn''
             = None
         \<and> sessionStorage (login (OAUTH_CONFIG env) randomBase36 random sha256 p) ''pkce_verifier''
             = sessionStorage p ''pkce_verifier''
         \<and> localStorage (login (OAUTH_CONFIG env) randomBase36 random sha256 p) ''oauth_state''
             = Some (drop 7 randomBase36)"
proof -
  from assms have "redirectUri (OAUTH_CONFIG env) = []"
    by (simp add: OAUTH_CONFIG_def orEmpty_def truthy_def split: option.splits)
  then show ?thesis
    by (simp add: login_def Let_def)
qed

theorem login_without_redirect_witness:
  "\<not> truthy (VITE_OAUTH_REDIRECT_URI scenario_env_no_redirect)
   \<and> navigated (login (OAUTH_CONFIG scenario_env_no_redirect) ''0.4fzyo82mvyr'' zero_bytes
        zero_digest callback_page) = None
   \<and> sessionStorage callback_page ''isLoggingIn'' = Some ''1''
   \<and> sessionStorage (login (OAUTH_CONFIG scenario_env_no_redirect) ''0.4fzyo82mvyr'' zero_bytes
        zero_digest callback_page) ''isLoggingIn'' = None
   \<and> sessionStorage (login (OAUTH_CONFIG scenario_env_no_redirect) ''0.4fzyo82mvyr'' zero_bytes
        zero_digest callback_page) ''pkce_verifier'' = Some ''verifier''
   \<and> localStorage (login (OAUTH_CONFIG scenario_env_no_redirect) ''0.4fzyo82mvyr'' zero_bytes
        zero_digest callback_page) ''oauth_state'' = Some ''82mvyr''"
  using login_without_redirect
    [of scenario_env_no_redirect "''0.4fzyo82mvyr''" zero_bytes zero_digest callback_page]
  by (simp add: scenario_env_no_redirect_def scenario_env_def truthy_def callback_page_def)

text \<open>
  With a redirect URI, \<^verbatim>\<open>login\<close> leaves the marker set, stores the verifier and the
  state, and navigates to the authorization endpoint with that state.
\<close>

lemma login_with_redirect:
  assumes "truthy (VITE_OAUTH_REDIRECT_URI env)"
  shows "sessionStorage (login (OAUTH_CONFIG env) randomBase36 random sha256 p) ''isLoggingIn''
           = Some ''1''
         \<and> sessionStorage (login (OAUTH_CONFIG env) randomBase36 random sha256 p) ''pkce_verifier''
           = Some (generateCodeVerifier random)
         \<and> localStorage (login (OAUTH_CONFIG env) randomBase36 random sha256 p) ''oauth_state''
           = Some (drop 7 randomBase36)
         \<and> (\<exists>nav. navigated (login (OAUTH_CONFIG env) randomBase36 random sha256 p) = Some nav
              \<and> target nav = authUrl (OAUTH_CONFIG env)
              \<and> map_of (query nav) ''state'' = Some (drop 7 randomBase36)
              \<and> map_of (query nav) ''code_challenge_method'' = Some ''S256'')"
proof -
  from assms have "redirectUri (OAUTH_CONFIG env) \<noteq> []"
    by (auto simp: OAUTH_CONFIG_def orEmpty_def truthy_def split: option.splits)
  then show ?thesis
    by (simp add: login_def Let_def)
qed

subsection \<open>The route guard\<close>

text \<open>
  C8. On a run of the effect of \<^verbatim>\<open>ProtectedRoute\<close> with neither \<^verbatim>\<open>code\<close> nor
  \<^verbatim>\<open>state\<close> in the URL, the loading finished, nobody authenticated and no redirect
  yet: when the \<^verbatim>\<open>justLoggedOut\<close> marker is set (it holds a value that is not empty;
  the module writes \<^verbatim>\<open>'1'\<close>), the marker is removed and the result does not depend on
  \<^verbatim>\<open>login\<close>, which is not called; otherwise, when the \<^verbatim>\<open>isLoggingIn\<close> marker is
  set, the page is left as it is, again without \<^verbatim>\<open>login\<close>; only with neither marker
  is the page the one \<^verbatim>\<open>login\<close> gives. All three mark the redirect as done.
\<close>

theorem processCallback_markers:
  assumes "map_of (location_search p) ''code'' = None"
    and "map_of (location_search p) ''state'' = None"
    and "\<not> isLoading (auth p)"
    and "\<not> isAuthenticated (auth p)"
    and "\<not> hasRedirected r"
  shows "processCallback login_fn handler (r, p) =
           (if truthy (sessionStorage p ''justLoggedOut'')
            then (r\<lparr>hasRedirected := True\<rparr>,
                  p\<lparr>sessionStorage := (sessionStorage p)(''justLoggedOut'' := None)\<rparr>)
            else if truthy (sessionStorage p ''isLoggingIn'')
            then (r\<lparr>hasRedirected := True\<rparr>, p)
            else (r\<lparr>hasRedirected := True\<rparr>, login_fn p))"
  using assms
  by (simp add: processCallback_def redirectToLogin_def Let_def)

theorem processCallback_markers_witness:
  "sessionStorage logged_out_page ''justLoggedOut'' = Some ''1''
   \<and> navigated (snd (processCallback scenario_login (Some scenario_handler)
        (initial_route, logged_out_page))) = None
   \<and> sessionStorage (snd (processCallback scenario_login (Some scenario_handler)
        (initial_route, logged_out_page))) ''justLoggedOut'' = None
   \<and> sessionStorage (snd (processCallback scenario_login (Some scenario_handler)
        (initial_route, logged_out_page))) ''isLoggingIn'' = None
   \<and> sessionStorage logging_in_page ''isLoggingIn'' = Some ''1''
   \<and> navigated (snd (processCallback scenario_login (Some scenario_handler)
        (initial_route, logging_in_page))) = None
   \<and> localStorage (snd (processCallback scenario_login (Some scenario_handler)
        (initial_route, logging_in_page))) ''oauth_state'' = None
   \<and> sessionStorage (snd (processCallback scenario_login (Some scenario_handler)
        (initial_route, idle_page))) ''isLoggingIn'' = Some ''1''
   \<and> localStorage (snd (processCallback scenario_login (Some scenario_handler)
        (initial_route, idle_page))) ''oauth_state'' = Some ''82mvyr''"
  using processCallback_markers
    [of logged_out_page initial_route scenario_login "Some scenario_handler"]
    processCallback_markers
    [of logging_in_page initial_route scenario_login "Some scenario_handler"]
    processCallback_markers
    [of idle_page initial_route scenario_login "Some scenario_handler"]
  by (simp add: logged_out_page_def logging_in_page_def idle_page_def fresh_page_def
      initial_auth_def initial_route_def truthy_def scenario_login_def login_def
      OAUTH_CONFIG_def orEmpty_def scenario_env_def Let_def)

end
